theory Spec2Isabelle
  imports Main
begin

section \<open>JavaScript strings and arrays used by the Settings class\<close>

text \<open>
  A JavaScript string is modelled as a \<^typ>\<open>string\<close>, one \<^typ>\<open>char\<close> per code unit, so
  the model covers the strings whose code units are below 256. The white space that
  \<^verbatim>\<open>String.prototype.trim\<close> strips is, in that range: TAB, LF, VT, FF, CR, SPACE and
  NBSP.
\<close>

definition is_whitespace :: "char \<Rightarrow> bool" where
  "is_whitespace c \<longleftrightarrow>
     c \<in> set [CHR 0x09, CHR 0x0A, CHR 0x0B, CHR 0x0C, CHR 0x0D, CHR 0x20, CHR 0xA0]"

text \<open>\<^verbatim>\<open>s.trim()\<close>: white space removed at both ends.\<close>

definition trim :: "string \<Rightarrow> string" where
  "trim s = rev (dropWhile is_whitespace (rev (dropWhile is_whitespace s)))"

text \<open>
  \<^verbatim>\<open>s.split(sep)\<close> for a separator of one character: the pieces between the
  separators, the empty ones included; the empty string gives one empty piece.
\<close>

fun js_split :: "char \<Rightarrow> string \<Rightarrow> string list" where
  "js_split sep [] = [[]]"
| "js_split sep (c # cs) =
     (if c = sep then [] # js_split sep cs
      else (case js_split sep cs of
              [] \<Rightarrow> [[c]]
            | p # ps \<Rightarrow> (c # p) # ps))"

text \<open>\<^verbatim>\<open>arr.join(sep)\<close>: the empty array gives the empty string.\<close>

fun js_join :: "string \<Rightarrow> string list \<Rightarrow> string" where
  "js_join sep [] = []"
| "js_join sep [x] = x"
| "js_join sep (x # y # ys) = x @ sep @ js_join sep (y # ys)"

text \<open>
  \<^verbatim>\<open>[...new Set(arr)]\<close>: a Set keeps its elements in insertion order and adding an
  element it already holds changes nothing; the Set is its list of elements in that order.
\<close>

definition set_add :: "'a list \<Rightarrow> 'a \<Rightarrow> 'a list" where
  "set_add s x = (if x \<in> set s then s else s @ [x])"

definition new_Set :: "'a list \<Rightarrow> 'a list" where
  "new_Set arr = foldl set_add [] arr"

section \<open>The host's settings backend\<close>

datatype setting_value = BoolV bool | StrV string

datatype setting_scope = World | Client

datatype setting_type = TBoolean | TString

datatype on_change = ReloadWindow

record setting_config =
  s_name :: string
  s_hint :: "string option"
  s_scope :: setting_scope
  s_config :: bool
  s_default :: setting_value
  s_choices :: "(string \<times> string) list"
  s_type :: setting_type
  s_onChange :: "on_change option"

record game_settings =
  registered :: "(string \<times> string) \<rightharpoonup> setting_config"
  storage :: "(string \<times> string) \<rightharpoonup> setting_value"

datatype error = NotRegistered | TypeError

text \<open>
  Modelled from the spec: \<^verbatim>\<open>game.settings\<close> is the host application's object and is not
  part of the repository. The spec gives it three operations: \<^verbatim>\<open>register(namespace, key,
  descriptor)\<close> records the descriptor with its default, \<^verbatim>\<open>get(namespace, key)\<close> returns
  the persisted value or else the registered default, \<^verbatim>\<open>set(namespace, key, value)\<close>
  overwrites the persisted value, and the call is taken as complete when it returns. For
  a key with neither a persisted value nor a
  registration the spec gives \<^verbatim>\<open>get\<close> nothing to return: that is the error
  \<^const>\<open>NotRegistered\<close>.
\<close>

definition settings_register ::
    "string \<Rightarrow> string \<Rightarrow> setting_config \<Rightarrow> game_settings \<Rightarrow> game_settings" where
  "settings_register ns k cfg gs = gs\<lparr>registered := (registered gs)((ns, k) \<mapsto> cfg)\<rparr>"

definition settings_get :: "string \<Rightarrow> string \<Rightarrow> game_settings \<Rightarrow> error + setting_value" where
  "settings_get ns k gs =
     (case storage gs (ns, k) of
        Some v \<Rightarrow> Inr v
      | None \<Rightarrow> (case registered gs (ns, k) of
                  Some cfg \<Rightarrow> Inr (s_default cfg)
                | None \<Rightarrow> Inl NotRegistered))"

definition settings_set ::
    "string \<Rightarrow> string \<Rightarrow> setting_value \<Rightarrow> game_settings \<Rightarrow> game_settings" where
  "settings_set ns k v gs = gs\<lparr>storage := (storage gs)((ns, k) \<mapsto> v)\<rparr>"

text \<open>Sequencing of calls: the first exception ends the run.\<close>

definition and_then :: "error + 'a \<Rightarrow> ('a \<Rightarrow> error + 'b) \<Rightarrow> error + 'b" where
  "and_then r f = (case r of Inl e \<Rightarrow> Inl e | Inr x \<Rightarrow> f x)"

section \<open>The Settings class\<close>

definition PACKAGE_NAME :: string where
  "PACKAGE_NAME = ''dfreds-convenient-effects''"

definition ALLOW_FOR_PLAYERS :: string where
  "ALLOW_FOR_PLAYERS = ''allowForPlayers''"

definition CHAT_MESSAGE_TYPE :: string where
  "CHAT_MESSAGE_TYPE = ''chatMessageType''"

definition INTEGRATE_WITH_ATL :: string where
  "INTEGRATE_WITH_ATL = ''integrateWithAtl''"

definition INTEGRATE_WITH_TOKEN_MAGIC :: string where
  "INTEGRATE_WITH_TOKEN_MAGIC = ''integrateWithTokenMagic''"

definition FAVORITE_EFFECT_NAMES :: string where
  "FAVORITE_EFFECT_NAMES = ''favoriteEffectNames''"

definition EXPANDED_FOLDERS :: string where
  "EXPANDED_FOLDERS = ''expandedFolders''"

definition registerSettings :: "game_settings \<Rightarrow> game_settings" where
  "registerSettings gs0 =
     (let gs1 = settings_register PACKAGE_NAME ALLOW_FOR_PLAYERS
            \<lparr>s_name = ''Players Can See'',
             s_hint = Some ''If enabled, players can see the effects and toggle them on or off. Requires a Foundry reload.'',
             s_scope = World, s_config = True, s_default = BoolV False,
             s_choices = [], s_type = TBoolean, s_onChange = Some ReloadWindow\<rparr> gs0;
          gs2 = settings_register PACKAGE_NAME CHAT_MESSAGE_TYPE
            \<lparr>s_name = ''Chat Message Type'',
             s_hint = Some ''This is how chat messages will be displayed when effects are applied, remove, or expire.'',
             s_scope = World, s_config = True, s_default = StrV ''private'',
             s_choices = [(''none'', ''None''), (''gmOnly'', ''GM Only''), (''everyone'', ''Everyone'')],
             s_type = TString, s_onChange = None\<rparr> gs1;
          gs3 = settings_register PACKAGE_NAME INTEGRATE_WITH_ATL
            \<lparr>s_name = ''Integrate with ATL'',
             s_hint = Some ''If enabled, certain effects will also change light emitted from tokens via Active Token Lighting.'',
             s_scope = World, s_config = True, s_default = BoolV True,
             s_choices = [], s_type = TBoolean, s_onChange = None\<rparr> gs2;
          gs4 = settings_register PACKAGE_NAME INTEGRATE_WITH_TOKEN_MAGIC
            \<lparr>s_name = ''Integrate with Token Magic'',
             s_hint = Some ''If enabled, certain effects will also apply a token magic filter to tokens via Token Magic.'',
             s_scope = World, s_config = True, s_default = BoolV True,
             s_choices = [], s_type = TBoolean, s_onChange = None\<rparr> gs3;
          gs5 = settings_register PACKAGE_NAME FAVORITE_EFFECT_NAMES
            \<lparr>s_name = ''Favorite Effect Names'', s_hint = None,
             s_scope = Client, s_config = False, s_default = StrV '''',
             s_choices = [], s_type = TString, s_onChange = None\<rparr> gs4
      in settings_register PACKAGE_NAME EXPANDED_FOLDERS
            \<lparr>s_name = ''Expanded Folders'', s_hint = None,
             s_scope = Client, s_config = False, s_default = StrV ''Favorites'',
             s_choices = [], s_type = TString, s_onChange = None\<rparr> gs5)"

text \<open>
  The getters call \<^verbatim>\<open>.split(';')\<close> on what the backend returns; on a value that is not
  a string that call raises a TypeError. The filter keeps a piece when its trimmed form is
  truthy, that is, not the empty string.
\<close>

definition favoriteEffectNames :: "game_settings \<Rightarrow> error + string list" where
  "favoriteEffectNames gs =
     (case settings_get PACKAGE_NAME FAVORITE_EFFECT_NAMES gs of
        Inl e \<Rightarrow> Inl e
      | Inr (BoolV b) \<Rightarrow> Inl TypeError
      | Inr (StrV s) \<Rightarrow> Inr (filter (\<lambda>name. trim name \<noteq> []) (js_split CHR 0x3B s)))"

definition addFavoriteEffect :: "string \<Rightarrow> game_settings \<Rightarrow> error + game_settings" where
  "addFavoriteEffect name gs =
     (case favoriteEffectNames gs of
        Inl e \<Rightarrow> Inl e
      | Inr favoriteEffectsArray \<Rightarrow>
          Inr (settings_set PACKAGE_NAME FAVORITE_EFFECT_NAMES
                 (StrV (js_join [CHR 0x3B] (new_Set (favoriteEffectsArray @ [name])))) gs))"

definition removeFavoriteEffect :: "string \<Rightarrow> game_settings \<Rightarrow> error + game_settings" where
  "removeFavoriteEffect name gs =
     (case favoriteEffectNames gs of
        Inl e \<Rightarrow> Inl e
      | Inr names \<Rightarrow>
          Inr (settings_set PACKAGE_NAME FAVORITE_EFFECT_NAMES
                 (StrV (js_join [CHR 0x3B]
                    (filter (\<lambda>favoriteEffect. favoriteEffect \<noteq> name) names))) gs))"

definition isFavoritedEffect :: "string \<Rightarrow> game_settings \<Rightarrow> error + bool" where
  "isFavoritedEffect name gs =
     (case favoriteEffectNames gs of
        Inl e \<Rightarrow> Inl e
      | Inr names \<Rightarrow> Inr (name \<in> set names))"

definition expandedFolders :: "game_settings \<Rightarrow> error + string list" where
  "expandedFolders gs =
     (case settings_get PACKAGE_NAME EXPANDED_FOLDERS gs of
        Inl e \<Rightarrow> Inl e
      | Inr (BoolV b) \<Rightarrow> Inl TypeError
      | Inr (StrV s) \<Rightarrow> Inr (filter (\<lambda>name. trim name \<noteq> []) (js_split CHR 0x3B s)))"

definition addExpandedFolder :: "string \<Rightarrow> game_settings \<Rightarrow> error + game_settings" where
  "addExpandedFolder name gs =
     (case expandedFolders gs of
        Inl e \<Rightarrow> Inl e
      | Inr expandedFolderArray \<Rightarrow>
          Inr (settings_set PACKAGE_NAME EXPANDED_FOLDERS
                 (StrV (js_join [CHR 0x3B] (new_Set (expandedFolderArray @ [name])))) gs))"

definition removeExpandedFolder :: "string \<Rightarrow> game_settings \<Rightarrow> error + game_settings" where
  "removeExpandedFolder name gs =
     (case expandedFolders gs of
        Inl e \<Rightarrow> Inl e
      | Inr names \<Rightarrow>
          Inr (settings_set PACKAGE_NAME EXPANDED_FOLDERS
                 (StrV (js_join [CHR 0x3B]
                    (filter (\<lambda>expandedFolder. expandedFolder \<noteq> name) names))) gs))"

definition clearExpandedFolders :: "game_settings \<Rightarrow> game_settings" where
  "clearExpandedFolders gs = settings_set PACKAGE_NAME EXPANDED_FOLDERS (StrV '''') gs"

definition isFolderExpanded :: "string \<Rightarrow> game_settings \<Rightarrow> error + bool" where
  "isFolderExpanded name gs =
     (case expandedFolders gs of
        Inl e \<Rightarrow> Inl e
      | Inr names \<Rightarrow> Inr (name \<in> set names))"

section \<open>Raw values and members\<close>

text \<open>
  What the two getters compute from a raw value, and what the two adders and removers
  write for it, named so that the lemmas below can speak about them.
\<close>

definition members :: "string \<Rightarrow> string list" where
  "members raw = filter (\<lambda>name. trim name \<noteq> []) (js_split CHR 0x3B raw)"

definition add_raw :: "string \<Rightarrow> string \<Rightarrow> string" where
  "add_raw name raw = js_join [CHR 0x3B] (new_Set (members raw @ [name]))"

definition remove_raw :: "string \<Rightarrow> string \<Rightarrow> string" where
  "remove_raw name raw = js_join [CHR 0x3B] (filter (\<lambda>m. m \<noteq> name) (members raw))"

text \<open>A backend whose only content is a persisted raw value under one of the two keys.\<close>

definition favorites_only :: "string \<Rightarrow> game_settings" where
  "favorites_only raw =
     \<lparr>registered = Map.empty,
      storage = [(PACKAGE_NAME, FAVORITE_EFFECT_NAMES) \<mapsto> StrV raw]\<rparr>"

definition folders_only :: "string \<Rightarrow> game_settings" where
  "folders_only raw =
     \<lparr>registered = Map.empty,
      storage = [(PACKAGE_NAME, EXPANDED_FOLDERS) \<mapsto> StrV raw]\<rparr>"

definition fresh_backend :: game_settings where
  "fresh_backend = \<lparr>registered = Map.empty, storage = Map.empty\<rparr>"

section \<open>Auxiliary facts\<close>

subsection \<open>The backend and the operations on a known raw value\<close>

lemma get_set_same [simp]: "settings_get ns k (settings_set ns k v gs) = Inr v"
  by (simp add: settings_get_def settings_set_def)

lemma key_neq [simp]: "FAVORITE_EFFECT_NAMES \<noteq> EXPANDED_FOLDERS" "EXPANDED_FOLDERS \<noteq> FAVORITE_EFFECT_NAMES"
  by (simp_all add: FAVORITE_EFFECT_NAMES_def EXPANDED_FOLDERS_def)

lemma favoriteEffectNames_raw:
  "settings_get PACKAGE_NAME FAVORITE_EFFECT_NAMES gs = Inr (StrV raw) \<Longrightarrow>
   favoriteEffectNames gs = Inr (members raw)"
  by (simp add: favoriteEffectNames_def members_def)

lemma expandedFolders_raw:
  "settings_get PACKAGE_NAME EXPANDED_FOLDERS gs = Inr (StrV raw) \<Longrightarrow>
   expandedFolders gs = Inr (members raw)"
  by (simp add: expandedFolders_def members_def)

lemma addFavoriteEffect_raw:
  "settings_get PACKAGE_NAME FAVORITE_EFFECT_NAMES gs = Inr (StrV raw) \<Longrightarrow>
   addFavoriteEffect name gs =
     Inr (settings_set PACKAGE_NAME FAVORITE_EFFECT_NAMES (StrV (add_raw name raw)) gs)"
  by (simp add: addFavoriteEffect_def favoriteEffectNames_raw add_raw_def)

lemma addExpandedFolder_raw:
  "settings_get PACKAGE_NAME EXPANDED_FOLDERS gs = Inr (StrV raw) \<Longrightarrow>
   addExpandedFolder name gs =
     Inr (settings_set PACKAGE_NAME EXPANDED_FOLDERS (StrV (add_raw name raw)) gs)"
  by (simp add: addExpandedFolder_def expandedFolders_raw add_raw_def)

lemma removeFavoriteEffect_raw:
  "settings_get PACKAGE_NAME FAVORITE_EFFECT_NAMES gs = Inr (StrV raw) \<Longrightarrow>
   removeFavoriteEffect name gs =
     Inr (settings_set PACKAGE_NAME FAVORITE_EFFECT_NAMES (StrV (remove_raw name raw)) gs)"
  by (simp add: removeFavoriteEffect_def favoriteEffectNames_raw remove_raw_def)

lemma isFavoritedEffect_raw:
  "settings_get PACKAGE_NAME FAVORITE_EFFECT_NAMES gs = Inr (StrV raw) \<Longrightarrow>
   isFavoritedEffect name gs = Inr (name \<in> set (members raw))"
  by (simp add: isFavoritedEffect_def favoriteEffectNames_raw)

lemma and_then_Inr [simp]: "and_then (Inr x) f = f x"
  by (simp add: and_then_def)

lemma favorites_only_get [simp]:
  "settings_get PACKAGE_NAME FAVORITE_EFFECT_NAMES (favorites_only raw) = Inr (StrV raw)"
  by (simp add: favorites_only_def settings_get_def)

lemma folders_only_get [simp]:
  "settings_get PACKAGE_NAME EXPANDED_FOLDERS (folders_only raw) = Inr (StrV raw)"
  by (simp add: folders_only_def settings_get_def)

subsection \<open>Splitting and joining\<close>

lemma js_split_not_Nil [simp]: "js_split sep s \<noteq> []"
  by (induction s) (auto split: list.splits)

lemma js_split_append_sep:
  "js_split sep (x @ sep # y) = js_split sep x @ js_split sep y"
proof (induction x)
  case Nil
  show ?case by simp
next
  case (Cons c x)
  obtain p ps where "js_split sep x = p # ps"
    by (cases "js_split sep x") simp_all
  with Cons show ?case by simp
qed

lemma js_split_no_sep: "sep \<notin> set s \<Longrightarrow> js_split sep s = [s]"
  by (induction s) auto

lemma js_split_pieces: "p \<in> set (js_split sep s) \<Longrightarrow> sep \<notin> set p"
proof (induction s arbitrary: p)
  case Nil
  then show ?case by simp
next
  case (Cons c s)
  obtain q qs where q: "js_split sep s = q # qs"
    by (cases "js_split sep s") simp_all
  with Cons show ?case
    by (auto split: if_splits)
qed

lemma js_join_Cons: "ys \<noteq> [] \<Longrightarrow> js_join sep (x # ys) = x @ sep @ js_join sep ys"
  by (cases ys) simp_all

lemma js_join_split [simp]: "js_join [sep] (js_split sep s) = s"
proof (induction s)
  case Nil
  show ?case by simp
next
  case (Cons c s)
  obtain q qs where q: "js_split sep s = q # qs"
    by (cases "js_split sep s") simp_all
  with Cons show ?case
    by (cases qs) (auto simp: js_join_Cons)
qed

lemma js_split_join:
  "xs \<noteq> [] \<Longrightarrow> js_split sep (js_join [sep] xs) = concat (map (js_split sep) xs)"
proof (induction xs)
  case Nil
  then show ?case by simp
next
  case (Cons x ys)
  show ?case
  proof (cases ys)
    case Nil
    then show ?thesis by simp
  next
    case (Cons y zs)
    then have "ys \<noteq> []" by simp
    then show ?thesis
      using Cons.IH by (simp add: js_join_Cons js_split_append_sep)
  qed
qed

lemma js_split_join_no_sep:
  assumes "\<And>x. x \<in> set xs \<Longrightarrow> sep \<notin> set x" and "xs \<noteq> []"
  shows "js_split sep (js_join [sep] xs) = xs"
proof -
  have "concat (map (js_split sep) xs) = xs"
    using assms(1) by (induction xs) (simp_all add: js_split_no_sep)
  with assms(2) show ?thesis by (simp add: js_split_join)
qed

lemma semicolon_not_whitespace [simp]: "\<not> is_whitespace CHR 0x3B"
  by (simp add: is_whitespace_def)

lemma trim_eq_Nil_iff: "trim s = [] \<longleftrightarrow> (\<forall>c \<in> set s. is_whitespace c)"
proof
  assume "trim s = []"
  then have *: "\<forall>c \<in> set (dropWhile is_whitespace s). is_whitespace c"
    by (simp add: trim_def dropWhile_eq_Nil_conv)
  have "dropWhile is_whitespace s = []"
  proof (rule ccontr)
    assume ne: "dropWhile is_whitespace s \<noteq> []"
    then have "\<not> is_whitespace (hd (dropWhile is_whitespace s))"
      by (rule hd_dropWhile)
    moreover from ne have "hd (dropWhile is_whitespace s) \<in> set (dropWhile is_whitespace s)"
      by simp
    ultimately show False using * by blast
  qed
  then show "\<forall>c \<in> set s. is_whitespace c"
    by (simp add: dropWhile_eq_Nil_conv)
next
  assume "\<forall>c \<in> set s. is_whitespace c"
  then show "trim s = []"
    by (auto simp: trim_def dropWhile_eq_Nil_conv dest: set_dropWhileD)
qed

lemma new_Set_snoc: "new_Set (xs @ [x]) = set_add (new_Set xs) x"
  by (simp add: new_Set_def)

lemma set_new_Set [simp]: "set (new_Set xs) = set xs"
  by (induction xs rule: rev_induct) (auto simp: new_Set_snoc set_add_def, simp add: new_Set_def)

lemma distinct_new_Set [simp]: "distinct (new_Set xs)"
  by (induction xs rule: rev_induct) (auto simp: new_Set_snoc set_add_def, simp add: new_Set_def)

lemma new_Set_distinct: "distinct xs \<Longrightarrow> new_Set xs = xs"
proof (induction xs rule: rev_induct)
  case Nil
  show ?case by (simp add: new_Set_def)
next
  case (snoc x xs)
  then show ?case by (simp add: new_Set_snoc set_add_def)
qed

lemma new_Set_not_Nil: "xs \<noteq> [] \<Longrightarrow> new_Set xs \<noteq> []"
  using set_new_Set [of xs] by (metis set_empty)

lemma members_Nil [simp]: "members [] = []"
  by (simp add: members_def trim_def)

lemma members_no_sep: "m \<in> set (members raw) \<Longrightarrow> CHR 0x3B \<notin> set m"
  by (auto simp: members_def dest: js_split_pieces)

lemma members_not_blank: "m \<in> set (members raw) \<Longrightarrow> trim m \<noteq> []"
  by (simp add: members_def)

lemma members_join:
  "xs \<noteq> [] \<Longrightarrow>
   members (js_join [CHR 0x3B] xs) =
     filter (\<lambda>name. trim name \<noteq> []) (concat (map (js_split CHR 0x3B) xs))"
  by (simp add: members_def js_split_join)

lemma members_join_no_sep:
  assumes "\<And>x. x \<in> set xs \<Longrightarrow> CHR 0x3B \<notin> set x"
  shows "members (js_join [CHR 0x3B] xs) = filter (\<lambda>name. trim name \<noteq> []) xs"
proof (cases "xs = []")
  case True
  then show ?thesis by simp
next
  case False
  with assms show ?thesis
    by (simp add: members_def js_split_join_no_sep)
qed

lemma filter_members [simp]: "filter (\<lambda>name. trim name \<noteq> []) (members raw) = members raw"
  by (simp add: members_def)

lemma members_remove_raw:
  "members (remove_raw name raw) = filter (\<lambda>m. m \<noteq> name) (members raw)"
proof -
  let ?xs = "filter (\<lambda>m. m \<noteq> name) (members raw)"
  have "members (js_join [CHR 0x3B] ?xs) = filter (\<lambda>name. trim name \<noteq> []) ?xs"
    by (rule members_join_no_sep) (auto dest: members_no_sep)
  also have "\<dots> = ?xs"
    by (rule filter_True) (auto dest: members_not_blank)
  finally show ?thesis by (simp add: remove_raw_def)
qed


subsection \<open>What add and remove write\<close>

lemma set_add_member: "x \<in> set s \<Longrightarrow> set_add s x = s"
  by (simp add: set_add_def)

lemma set_add_fresh: "x \<notin> set s \<Longrightarrow> set_add s x = s @ [x]"
  by (simp add: set_add_def)

lemma new_Set_idem [simp]: "new_Set (new_Set xs) = new_Set xs"
  by (simp add: new_Set_distinct)

lemma add_raw_not_Nil_list: "new_Set (members raw @ [name]) \<noteq> []"
  by (rule new_Set_not_Nil) simp

lemma set_members_add_raw:
  "set (members (add_raw name raw)) =
     set (members raw) \<union> {p \<in> set (js_split CHR 0x3B name). trim p \<noteq> []}"
proof -
  have "set (members (add_raw name raw)) =
          {p. \<exists>x \<in> set (members raw) \<union> {name}. p \<in> set (js_split CHR 0x3B x) \<and> trim p \<noteq> []}"
    unfolding add_raw_def by (auto simp: members_join [OF add_raw_not_Nil_list])
  also have "\<dots> = set (members raw) \<union> {p \<in> set (js_split CHR 0x3B name). trim p \<noteq> []}"
    by (auto simp: js_split_no_sep members_no_sep members_not_blank)
  finally show ?thesis .
qed

lemma blank_no_sep: "trim name = [] \<Longrightarrow> CHR 0x3B \<notin> set name"
  using semicolon_not_whitespace by (auto simp: trim_eq_Nil_iff)

lemma blank_not_member: "trim name = [] \<Longrightarrow> name \<notin> set (members raw)"
  by (auto dest: members_not_blank)

lemma members_add_raw_no_sep:
  assumes "CHR 0x3B \<notin> set name"
  shows "members (add_raw name raw) =
           filter (\<lambda>n. trim n \<noteq> []) (new_Set (members raw @ [name]))"
  unfolding add_raw_def
  by (rule members_join_no_sep) (use assms in \<open>auto dest: members_no_sep\<close>)

lemma members_add_raw_blank:
  assumes "trim name = []"
  shows "members (add_raw name raw) = new_Set (members raw)"
proof -
  have fresh: "name \<notin> set (new_Set (members raw))"
    using assms by (simp add: blank_not_member)
  have keep: "filter (\<lambda>n. trim n \<noteq> []) (new_Set (members raw)) = new_Set (members raw)"
    by (rule filter_True) (simp add: members_not_blank)
  have "members (add_raw name raw) =
          filter (\<lambda>n. trim n \<noteq> []) (new_Set (members raw) @ [name])"
    using fresh by (simp add: members_add_raw_no_sep blank_no_sep assms new_Set_snoc set_add_fresh)
  with keep assms show ?thesis by simp
qed

lemma members_add_raw_plain:
  assumes "CHR 0x3B \<notin> set name" and "trim name \<noteq> []"
  shows "members (add_raw name raw) = new_Set (members raw @ [name])"
proof -
  have "filter (\<lambda>n. trim n \<noteq> []) (new_Set (members raw @ [name])) =
          new_Set (members raw @ [name])"
    by (rule filter_True) (use assms in \<open>auto dest: members_not_blank\<close>)
  with assms show ?thesis by (simp add: members_add_raw_no_sep)
qed

lemma add_raw_idem:
  assumes "CHR 0x3B \<notin> set name"
  shows "add_raw name (add_raw name raw) = add_raw name raw"
proof (cases "trim name = []")
  case True
  then have "name \<notin> set (new_Set (members raw))"
    by (simp add: blank_not_member)
  then show ?thesis
    by (simp add: add_raw_def [of name "add_raw name raw"] members_add_raw_blank True
        new_Set_snoc [of "new_Set (members raw)"] set_add_fresh)
       (simp add: add_raw_def new_Set_snoc set_add_fresh)
next
  case False
  have "new_Set (new_Set (members raw @ [name]) @ [name]) = new_Set (members raw @ [name])"
    by (simp add: new_Set_snoc [of "new_Set (members raw @ [name])"] set_add_member)
  then show ?thesis
    by (simp add: add_raw_def [of name "add_raw name raw"] members_add_raw_plain assms False)
       (simp add: add_raw_def)
qed

lemma join_members_add_raw:
  assumes "\<And>p. p \<in> set (js_split CHR 0x3B name) \<Longrightarrow> trim p \<noteq> []"
  shows "js_join [CHR 0x3B] (members (add_raw name raw)) = add_raw name raw"
proof -
  let ?L = "new_Set (members raw @ [name])"
  have "filter (\<lambda>n. trim n \<noteq> []) (concat (map (js_split CHR 0x3B) ?L)) =
          concat (map (js_split CHR 0x3B) ?L)"
    by (rule filter_True)
       (use assms in \<open>auto simp: js_split_no_sep members_no_sep members_not_blank\<close>)
  then have "members (js_join [CHR 0x3B] ?L) = js_split CHR 0x3B (js_join [CHR 0x3B] ?L)"
    by (simp add: members_join [OF add_raw_not_Nil_list] js_split_join [OF add_raw_not_Nil_list])
  then show ?thesis by (simp add: add_raw_def)
qed

lemma join_members_all_kept:
  assumes "\<And>p. p \<in> set (js_split CHR 0x3B raw) \<Longrightarrow> trim p \<noteq> []"
  shows "js_join [CHR 0x3B] (members raw) = raw"
proof -
  have "members raw = js_split CHR 0x3B raw"
    unfolding members_def by (rule filter_True) (use assms in auto)
  then show ?thesis by simp
qed

lemma remove_raw_absent:
  "name \<notin> set (members raw) \<Longrightarrow> remove_raw name raw = js_join [CHR 0x3B] (members raw)"
proof -
  assume "name \<notin> set (members raw)"
  then have "filter (\<lambda>m. m \<noteq> name) (members raw) = members raw"
    by (intro filter_True) auto
  then show ?thesis by (simp add: remove_raw_def)
qed

subsection \<open>Registration\<close>

lemma registerSettings_storage [simp]: "storage (registerSettings gs) = storage gs"
  by (simp add: registerSettings_def settings_register_def)

lemma registerSettings_favorites:
  "map_option s_default (registered (registerSettings gs) (PACKAGE_NAME, FAVORITE_EFFECT_NAMES)) =
     Some (StrV '''')"
  by (simp add: registerSettings_def settings_register_def)

lemma registerSettings_folders:
  "map_option s_default (registered (registerSettings gs) (PACKAGE_NAME, EXPANDED_FOLDERS)) =
     Some (StrV ''Favorites'')"
  by (simp add: registerSettings_def settings_register_def)

lemma get_registered_favorites:
  "storage gs (PACKAGE_NAME, FAVORITE_EFFECT_NAMES) = None \<Longrightarrow>
   settings_get PACKAGE_NAME FAVORITE_EFFECT_NAMES (registerSettings gs) = Inr (StrV '''')"
  using registerSettings_favorites [of gs]
  by (auto simp: settings_get_def split: option.splits)

lemma get_registered_folders:
  "storage gs (PACKAGE_NAME, EXPANDED_FOLDERS) = None \<Longrightarrow>
   settings_get PACKAGE_NAME EXPANDED_FOLDERS (registerSettings gs) = Inr (StrV ''Favorites'')"
  using registerSettings_folders [of gs]
  by (auto simp: settings_get_def split: option.splits)

lemma fresh_storage [simp]: "storage fresh_backend k = None"
  by (simp add: fresh_backend_def)

lemma members_Favorites: "members ''Favorites'' = [''Favorites'']"
  by (simp add: members_def trim_def is_whitespace_def)

subsection \<open>Further facts for the claims\<close>

lemma removeExpandedFolder_raw:
  "settings_get PACKAGE_NAME EXPANDED_FOLDERS gs = Inr (StrV raw) \<Longrightarrow>
   removeExpandedFolder name gs =
     Inr (settings_set PACKAGE_NAME EXPANDED_FOLDERS (StrV (remove_raw name raw)) gs)"
  by (simp add: removeExpandedFolder_def expandedFolders_raw remove_raw_def)

lemma kept_iff_not_blank: "trim p \<noteq> [] \<longleftrightarrow> (\<exists>c \<in> set p. \<not> is_whitespace c)"
  by (simp add: trim_eq_Nil_iff)

lemma members_example: "members ''a;;  ;b'' = [''a'', ''b'']"
  by (simp add: members_def trim_def is_whitespace_def)

lemma both_only_get:
  "settings_get PACKAGE_NAME FAVORITE_EFFECT_NAMES
     (settings_set PACKAGE_NAME EXPANDED_FOLDERS v (favorites_only raw)) = Inr (StrV raw)"
  by (simp add: settings_get_def settings_set_def favorites_only_def)

lemma sep_name_not_member_after_add:
  "CHR 0x3B \<in> set name \<Longrightarrow> name \<notin> set (members (add_raw name raw))"
  by (auto dest: members_no_sep)

lemma part_member_after_add:
  "p \<in> set (js_split CHR 0x3B name) \<Longrightarrow> trim p \<noteq> [] \<Longrightarrow>
   p \<in> set (members (add_raw name raw))"
  by (simp add: set_members_add_raw)

section \<open>The claims\<close>

text \<open>
  C1. From an empty favorites collection (raw value the empty string), adding "Blinded",
  then "Prone", then "Blinded" again leaves the raw value "Blinded;Prone", and the getter
  then returns "Blinded", "Prone" in that order.
\<close>

theorem C1_add_blinded_prone_blinded:
  assumes "settings_get PACKAGE_NAME FAVORITE_EFFECT_NAMES gs = Inr (StrV '''')"
  shows "and_then (and_then (and_then (addFavoriteEffect ''Blinded'' gs)
             (addFavoriteEffect ''Prone'')) (addFavoriteEffect ''Blinded''))
           (settings_get PACKAGE_NAME FAVORITE_EFFECT_NAMES) = Inr (StrV ''Blinded;Prone'')
       \<and> and_then (and_then (and_then (addFavoriteEffect ''Blinded'' gs)
             (addFavoriteEffect ''Prone'')) (addFavoriteEffect ''Blinded''))
           favoriteEffectNames = Inr [''Blinded'', ''Prone'']"
proof -
  have r1: "add_raw ''Blinded'' '''' = ''Blinded''"
    by (simp add: add_raw_def new_Set_def set_add_def)
  have m1: "members ''Blinded'' = [''Blinded'']"
    by (simp add: members_def trim_def is_whitespace_def)
  have r2: "add_raw ''Prone'' ''Blinded'' = ''Blinded;Prone''"
    by (simp add: add_raw_def m1 new_Set_def set_add_def)
  have m2: "members ''Blinded;Prone'' = [''Blinded'', ''Prone'']"
    by (simp add: members_def trim_def is_whitespace_def)
  have r3: "add_raw ''Blinded'' ''Blinded;Prone'' = ''Blinded;Prone''"
    by (simp add: add_raw_def m2 new_Set_def set_add_def)
  show ?thesis
    using assms
    by (simp add: addFavoriteEffect_raw favoriteEffectNames_raw r1 r2 r3 m2)
qed

theorem C1_add_blinded_prone_blinded_witness:
  "settings_get PACKAGE_NAME FAVORITE_EFFECT_NAMES (registerSettings fresh_backend) = Inr (StrV '''')
   \<and> and_then (and_then (and_then (addFavoriteEffect ''Blinded'' (registerSettings fresh_backend))
             (addFavoriteEffect ''Prone'')) (addFavoriteEffect ''Blinded''))
           (settings_get PACKAGE_NAME FAVORITE_EFFECT_NAMES) = Inr (StrV ''Blinded;Prone'')
   \<and> and_then (and_then (and_then (addFavoriteEffect ''Blinded'' (registerSettings fresh_backend))
             (addFavoriteEffect ''Prone'')) (addFavoriteEffect ''Blinded''))
           favoriteEffectNames = Inr [''Blinded'', ''Prone'']"
proof -
  have h: "settings_get PACKAGE_NAME FAVORITE_EFFECT_NAMES (registerSettings fresh_backend) = Inr (StrV '''')"
    by (simp add: get_registered_favorites)
  from h C1_add_blinded_prone_blinded [OF h] show ?thesis by (rule conjI)
qed

text \<open>
  C2. Adding the same name twice in a row against adding it once. As stated (same member
  set and same raw value, for every name) the claim fails for a name that holds the
  delimiter: on the empty collection, one add of "a;b" writes "a;b" and the second writes
  "a;b;a;b".
\<close>

theorem C2_counterexample:
  "and_then (addFavoriteEffect ''a;b'' (favorites_only ''''))
       (settings_get PACKAGE_NAME FAVORITE_EFFECT_NAMES) = Inr (StrV ''a;b'')
   \<and> and_then (and_then (addFavoriteEffect ''a;b'' (favorites_only ''''))
          (addFavoriteEffect ''a;b''))
       (settings_get PACKAGE_NAME FAVORITE_EFFECT_NAMES) = Inr (StrV ''a;b;a;b'')"
proof -
  have r1: "add_raw ''a;b'' '''' = ''a;b''"
    by (simp add: add_raw_def new_Set_def set_add_def)
  have m1: "members ''a;b'' = [''a'', ''b'']"
    by (simp add: members_def trim_def is_whitespace_def)
  have r2: "add_raw ''a;b'' ''a;b'' = ''a;b;a;b''"
    by (simp add: add_raw_def m1 new_Set_def set_add_def)
  show ?thesis
    by (simp add: addFavoriteEffect_raw r1 r2)
qed

text \<open>
  C2, as amended. For every name and every raw value, the getter returns the same set of
  members after two adds of the name as after one; when the name does not hold the
  delimiter, the raw value is the same too. Both hold for favorites and for expanded
  folders.
\<close>

theorem C2_add_twice:
  assumes fav: "settings_get PACKAGE_NAME FAVORITE_EFFECT_NAMES gs = Inr (StrV raw)"
      and fol: "settings_get PACKAGE_NAME EXPANDED_FOLDERS gs = Inr (StrV raw')"
  shows "(\<exists>ms1 ms2.
            and_then (addFavoriteEffect n gs) favoriteEffectNames = Inr ms1
          \<and> and_then (and_then (addFavoriteEffect n gs) (addFavoriteEffect n))
               favoriteEffectNames = Inr ms2
          \<and> set ms2 = set ms1)
       \<and> (CHR 0x3B \<notin> set n \<longrightarrow>
            (\<exists>r. and_then (addFavoriteEffect n gs)
                    (settings_get PACKAGE_NAME FAVORITE_EFFECT_NAMES) = Inr (StrV r)
                \<and> and_then (and_then (addFavoriteEffect n gs) (addFavoriteEffect n))
                    (settings_get PACKAGE_NAME FAVORITE_EFFECT_NAMES) = Inr (StrV r)))
       \<and> (\<exists>ms1 ms2.
            and_then (addExpandedFolder n gs) expandedFolders = Inr ms1
          \<and> and_then (and_then (addExpandedFolder n gs) (addExpandedFolder n))
               expandedFolders = Inr ms2
          \<and> set ms2 = set ms1)
       \<and> (CHR 0x3B \<notin> set n \<longrightarrow>
            (\<exists>r. and_then (addExpandedFolder n gs)
                    (settings_get PACKAGE_NAME EXPANDED_FOLDERS) = Inr (StrV r)
                \<and> and_then (and_then (addExpandedFolder n gs) (addExpandedFolder n))
                    (settings_get PACKAGE_NAME EXPANDED_FOLDERS) = Inr (StrV r)))"
proof -
  have same_set: "set (members (add_raw n (add_raw n r))) = set (members (add_raw n r))" for r
    by (auto simp: set_members_add_raw)
  show ?thesis
    using fav fol
    by (simp add: addFavoriteEffect_raw addExpandedFolder_raw favoriteEffectNames_raw
        expandedFolders_raw same_set add_raw_idem)
qed

theorem C2_add_twice_witness:
  "and_then (addFavoriteEffect ''Prone'' (registerSettings fresh_backend))
       (settings_get PACKAGE_NAME FAVORITE_EFFECT_NAMES) = Inr (StrV ''Prone'')
   \<and> and_then (and_then (addFavoriteEffect ''Prone'' (registerSettings fresh_backend))
          (addFavoriteEffect ''Prone''))
       (settings_get PACKAGE_NAME FAVORITE_EFFECT_NAMES) = Inr (StrV ''Prone'')
   \<and> and_then (addExpandedFolder ''Prone'' (registerSettings fresh_backend))
       (settings_get PACKAGE_NAME EXPANDED_FOLDERS) = Inr (StrV ''Favorites;Prone'')
   \<and> and_then (and_then (addExpandedFolder ''Prone'' (registerSettings fresh_backend))
          (addExpandedFolder ''Prone''))
       (settings_get PACKAGE_NAME EXPANDED_FOLDERS) = Inr (StrV ''Favorites;Prone'')"
proof -
  let ?gs = "registerSettings fresh_backend"
  have fav: "settings_get PACKAGE_NAME FAVORITE_EFFECT_NAMES ?gs = Inr (StrV '''')"
    by (simp add: get_registered_favorites)
  have fol: "settings_get PACKAGE_NAME EXPANDED_FOLDERS ?gs = Inr (StrV ''Favorites'')"
    by (simp add: get_registered_folders)
  have once_fav: "and_then (addFavoriteEffect ''Prone'' ?gs)
       (settings_get PACKAGE_NAME FAVORITE_EFFECT_NAMES) = Inr (StrV ''Prone'')"
    by (simp add: addFavoriteEffect_raw [OF fav] add_raw_def new_Set_def set_add_def)
  have once_fol: "and_then (addExpandedFolder ''Prone'' ?gs)
       (settings_get PACKAGE_NAME EXPANDED_FOLDERS) = Inr (StrV ''Favorites;Prone'')"
    by (simp add: addExpandedFolder_raw [OF fol] add_raw_def members_Favorites new_Set_def set_add_def)
  have "CHR 0x3B \<notin> set ''Prone''" by simp
  with C2_add_twice [OF fav fol, of "''Prone''"] once_fav once_fol
  show ?thesis by auto
qed

text \<open>
  C3. removeFavoriteEffect writes the current members without the occurrences of the name,
  joined by the delimiter; after it the name is not favorited, in particular when it was
  added just before.
\<close>

theorem C3_remove_then_not_favorited:
  assumes "settings_get PACKAGE_NAME FAVORITE_EFFECT_NAMES gs = Inr (StrV raw)"
  shows "(\<exists>ms. favoriteEffectNames gs = Inr ms
            \<and> and_then (removeFavoriteEffect n gs)
                 (settings_get PACKAGE_NAME FAVORITE_EFFECT_NAMES) =
                Inr (StrV (js_join [CHR 0x3B] (filter (\<lambda>m. m \<noteq> n) ms))))
       \<and> and_then (removeFavoriteEffect n gs) (isFavoritedEffect n) = Inr False
       \<and> and_then (and_then (addFavoriteEffect n gs) (removeFavoriteEffect n))
            (isFavoritedEffect n) = Inr False"
proof -
  have written: "and_then (removeFavoriteEffect n gs)
       (settings_get PACKAGE_NAME FAVORITE_EFFECT_NAMES) =
      Inr (StrV (js_join [CHR 0x3B] (filter (\<lambda>m. m \<noteq> n) (members raw))))"
    using assms by (simp add: removeFavoriteEffect_raw remove_raw_def)
  have gone: "and_then (removeFavoriteEffect n gs) (isFavoritedEffect n) = Inr False"
    using assms
    by (simp add: removeFavoriteEffect_raw isFavoritedEffect_raw members_remove_raw)
  have gone_after_add:
    "and_then (and_then (addFavoriteEffect n gs) (removeFavoriteEffect n))
       (isFavoritedEffect n) = Inr False"
    using assms
    by (simp add: addFavoriteEffect_raw removeFavoriteEffect_raw isFavoritedEffect_raw
        members_remove_raw)
  from assms written gone gone_after_add show ?thesis
    by (simp add: favoriteEffectNames_raw)
qed

theorem C3_remove_then_not_favorited_witness:
  "settings_get PACKAGE_NAME FAVORITE_EFFECT_NAMES (favorites_only ''a;x;b;x'') =
     Inr (StrV ''a;x;b;x'')
   \<and> favoriteEffectNames (favorites_only ''a;x;b;x'') = Inr [''a'', ''x'', ''b'', ''x'']
   \<and> and_then (removeFavoriteEffect ''x'' (favorites_only ''a;x;b;x''))
        (settings_get PACKAGE_NAME FAVORITE_EFFECT_NAMES) = Inr (StrV ''a;b'')
   \<and> and_then (removeFavoriteEffect ''x'' (favorites_only ''a;x;b;x''))
        (isFavoritedEffect ''x'') = Inr False
   \<and> and_then (and_then (addFavoriteEffect ''x'' (favorites_only ''a;x;b;x''))
        (removeFavoriteEffect ''x'')) (isFavoritedEffect ''x'') = Inr False"
proof -
  let ?gs = "favorites_only ''a;x;b;x''"
  have h: "settings_get PACKAGE_NAME FAVORITE_EFFECT_NAMES ?gs = Inr (StrV ''a;x;b;x'')"
    by simp
  have ms: "favoriteEffectNames ?gs = Inr [''a'', ''x'', ''b'', ''x'']"
    by (simp add: favoriteEffectNames_raw members_def trim_def is_whitespace_def)
  from C3_remove_then_not_favorited [OF h, of "''x''"] h ms show ?thesis
    by auto
qed

text \<open>
  C4. Removing a name that is not a member. As stated (the raw value after the call is the
  raw value before it, for every raw value) the claim fails where the raw value has an
  empty or blank entry: on "a;;  ;b", removing "x" writes "a;b".
\<close>

theorem C4_counterexample:
  "settings_get PACKAGE_NAME FAVORITE_EFFECT_NAMES (favorites_only ''a;;  ;b'') =
     Inr (StrV ''a;;  ;b'')
   \<and> isFavoritedEffect ''x'' (favorites_only ''a;;  ;b'') = Inr False
   \<and> and_then (removeFavoriteEffect ''x'' (favorites_only ''a;;  ;b''))
        (settings_get PACKAGE_NAME FAVORITE_EFFECT_NAMES) = Inr (StrV ''a;b'')"
proof -
  have ms: "members ''a;;  ;b'' = [''a'', ''b'']"
    by (simp add: members_def trim_def is_whitespace_def)
  show ?thesis
    by (simp add: isFavoritedEffect_raw removeFavoriteEffect_raw remove_raw_def ms)
qed

text \<open>
  C4, as amended. For every raw value and every name that is not a member, the call
  returns, the getter gives the same sequence after it as before it, and the raw value
  written is the join of that sequence; that is the raw value of before when none of its
  entries is empty or blank. On the empty collection the raw value stays empty and the
  getter returns no member.
\<close>

theorem C4_remove_absent:
  assumes raw: "settings_get PACKAGE_NAME FAVORITE_EFFECT_NAMES gs = Inr (StrV raw)"
      and absent: "isFavoritedEffect n gs = Inr False"
  shows "(\<exists>ms. favoriteEffectNames gs = Inr ms
            \<and> and_then (removeFavoriteEffect n gs) favoriteEffectNames = Inr ms
            \<and> and_then (removeFavoriteEffect n gs)
                 (settings_get PACKAGE_NAME FAVORITE_EFFECT_NAMES) =
                Inr (StrV (js_join [CHR 0x3B] ms)))
       \<and> ((\<forall>p \<in> set (js_split CHR 0x3B raw). trim p \<noteq> []) \<longrightarrow>
            and_then (removeFavoriteEffect n gs)
              (settings_get PACKAGE_NAME FAVORITE_EFFECT_NAMES) = Inr (StrV raw))
       \<and> (raw = [] \<longrightarrow>
            and_then (removeFavoriteEffect n gs)
              (settings_get PACKAGE_NAME FAVORITE_EFFECT_NAMES) = Inr (StrV [])
          \<and> and_then (removeFavoriteEffect n gs) favoriteEffectNames = Inr [])"
proof -
  from raw absent have out: "n \<notin> set (members raw)"
    by (simp add: isFavoritedEffect_raw)
  have after: "members (remove_raw n raw) = members raw"
    using out by (auto simp: members_remove_raw filter_id_conv)
  have read_before: "favoriteEffectNames gs = Inr (members raw)"
    using raw by (simp add: favoriteEffectNames_raw)
  have read_after: "and_then (removeFavoriteEffect n gs) favoriteEffectNames = Inr (members raw)"
    using raw by (simp add: removeFavoriteEffect_raw favoriteEffectNames_raw after)
  have written: "and_then (removeFavoriteEffect n gs)
      (settings_get PACKAGE_NAME FAVORITE_EFFECT_NAMES) =
        Inr (StrV (js_join [CHR 0x3B] (members raw)))"
    using raw by (simp add: removeFavoriteEffect_raw remove_raw_absent [OF out])
  have kept: "js_join [CHR 0x3B] (members raw) = raw"
    if "\<forall>p \<in> set (js_split CHR 0x3B raw). trim p \<noteq> []"
    using that by (simp add: join_members_all_kept)
  have empty: "js_join [CHR 0x3B] (members raw) = [] \<and> members raw = []" if "raw = []"
    using that by simp
  from read_before read_after written kept empty show ?thesis
    by auto
qed

theorem C4_remove_absent_witness:
  "isFavoritedEffect ''x'' (favorites_only ''a;b'') = Inr False
   \<and> list_all (\<lambda>p. trim p \<noteq> []) (js_split CHR 0x3B ''a;b'')
   \<and> favoriteEffectNames (favorites_only ''a;b'') = Inr [''a'', ''b'']
   \<and> and_then (removeFavoriteEffect ''x'' (favorites_only ''a;b'')) favoriteEffectNames =
       Inr [''a'', ''b'']
   \<and> and_then (removeFavoriteEffect ''x'' (favorites_only ''a;b''))
        (settings_get PACKAGE_NAME FAVORITE_EFFECT_NAMES) = Inr (StrV ''a;b'')
   \<and> isFavoritedEffect ''x'' (favorites_only []) = Inr False
   \<and> and_then (removeFavoriteEffect ''x'' (favorites_only [])) favoriteEffectNames = Inr []
   \<and> and_then (removeFavoriteEffect ''x'' (favorites_only []))
        (settings_get PACKAGE_NAME FAVORITE_EFFECT_NAMES) = Inr (StrV [])"
proof -
  let ?gs = "favorites_only ''a;b''"
  have h: "settings_get PACKAGE_NAME FAVORITE_EFFECT_NAMES ?gs = Inr (StrV ''a;b'')"
    by simp
  have ms: "members ''a;b'' = [''a'', ''b'']"
    by (simp add: members_def trim_def is_whitespace_def)
  have absent: "isFavoritedEffect ''x'' ?gs = Inr False"
    by (simp add: isFavoritedEffect_raw ms)
  have pieces: "list_all (\<lambda>p. trim p \<noteq> []) (js_split CHR 0x3B ''a;b'')"
    by (simp add: trim_def is_whitespace_def)
  then have pieces': "\<forall>p \<in> set (js_split CHR 0x3B ''a;b''). trim p \<noteq> []"
    by (simp only: list_all_iff)
  have filled: "favoriteEffectNames ?gs = Inr [''a'', ''b'']
      \<and> and_then (removeFavoriteEffect ''x'' ?gs) favoriteEffectNames = Inr [''a'', ''b'']
      \<and> and_then (removeFavoriteEffect ''x'' ?gs)
           (settings_get PACKAGE_NAME FAVORITE_EFFECT_NAMES) = Inr (StrV ''a;b'')"
    using C4_remove_absent [OF h absent] pieces'
    by (simp add: favoriteEffectNames_raw ms)
  have h0: "settings_get PACKAGE_NAME FAVORITE_EFFECT_NAMES (favorites_only []) = Inr (StrV [])"
    by simp
  have absent0: "isFavoritedEffect ''x'' (favorites_only []) = Inr False"
    by (simp add: isFavoritedEffect_raw)
  have empty: "and_then (removeFavoriteEffect ''x'' (favorites_only [])) favoriteEffectNames = Inr []
      \<and> and_then (removeFavoriteEffect ''x'' (favorites_only []))
           (settings_get PACKAGE_NAME FAVORITE_EFFECT_NAMES) = Inr (StrV [])"
    using C4_remove_absent [OF h0 absent0] by simp
  from absent pieces filled absent0 empty show ?thesis
    by blast
qed

text \<open>
  C5. The getters split the raw value at the delimiter and drop the entries that are
  empty or made of white space only; the raw value "a;;  ;b" reads as "a", "b".
\<close>

theorem C5_read_filters_blank_entries:
  assumes fav: "settings_get PACKAGE_NAME FAVORITE_EFFECT_NAMES gs = Inr (StrV raw)"
      and fol: "settings_get PACKAGE_NAME EXPANDED_FOLDERS gs = Inr (StrV raw')"
  shows "favoriteEffectNames gs =
           Inr (filter (\<lambda>p. \<exists>c \<in> set p. \<not> is_whitespace c) (js_split CHR 0x3B raw))
       \<and> expandedFolders gs =
           Inr (filter (\<lambda>p. \<exists>c \<in> set p. \<not> is_whitespace c) (js_split CHR 0x3B raw'))
       \<and> (raw = ''a;;  ;b'' \<longrightarrow> favoriteEffectNames gs = Inr [''a'', ''b''])
       \<and> (raw' = ''a;;  ;b'' \<longrightarrow> expandedFolders gs = Inr [''a'', ''b''])"
proof -
  have m: "members r = filter (\<lambda>p. \<exists>c \<in> set p. \<not> is_whitespace c) (js_split CHR 0x3B r)"
    for r
    by (simp add: members_def kept_iff_not_blank)
  have a: "favoriteEffectNames gs = Inr (members raw)"
    using fav by (rule favoriteEffectNames_raw)
  have b: "expandedFolders gs = Inr (members raw')"
    using fol by (rule expandedFolders_raw)
  have c: "raw = ''a;;  ;b'' \<longrightarrow> favoriteEffectNames gs = Inr [''a'', ''b'']"
    using a by (simp add: members_example)
  have d: "raw' = ''a;;  ;b'' \<longrightarrow> expandedFolders gs = Inr [''a'', ''b'']"
    using b by (simp add: members_example)
  from a b c d show ?thesis
    by (simp only: m simp_thms)
qed

theorem C5_read_filters_blank_entries_witness:
  "favoriteEffectNames
     (settings_set PACKAGE_NAME EXPANDED_FOLDERS (StrV ''a;;  ;b'') (favorites_only ''a;;  ;b'')) =
       Inr [''a'', ''b'']
   \<and> expandedFolders
     (settings_set PACKAGE_NAME EXPANDED_FOLDERS (StrV ''a;;  ;b'') (favorites_only ''a;;  ;b'')) =
       Inr [''a'', ''b'']"
proof -
  let ?gs = "settings_set PACKAGE_NAME EXPANDED_FOLDERS (StrV ''a;;  ;b'')
               (favorites_only ''a;;  ;b'')"
  have fav: "settings_get PACKAGE_NAME FAVORITE_EFFECT_NAMES ?gs = Inr (StrV ''a;;  ;b'')"
    by (rule both_only_get)
  have fol: "settings_get PACKAGE_NAME EXPANDED_FOLDERS ?gs = Inr (StrV ''a;;  ;b'')"
    by (rule get_set_same)
  from C5_read_filters_blank_entries [OF fav fol] show ?thesis
    by blast
qed

text \<open>
  C6. After clearExpandedFolders, whatever the backend held before, the raw value of the
  expanded folders is the empty string and the getter returns no member.
\<close>

theorem C6_clear_expanded_folders:
  "settings_get PACKAGE_NAME EXPANDED_FOLDERS (clearExpandedFolders gs) = Inr (StrV '''')
   \<and> expandedFolders (clearExpandedFolders gs) = Inr []"
  by (simp add: clearExpandedFolders_def expandedFolders_raw)

theorem C6_clear_expanded_folders_witness:
  "settings_get PACKAGE_NAME EXPANDED_FOLDERS
     (clearExpandedFolders (folders_only ''Favorites;Conditions'')) = Inr (StrV '''')
   \<and> expandedFolders (clearExpandedFolders (folders_only ''Favorites;Conditions'')) = Inr []"
  by (rule C6_clear_expanded_folders)

text \<open>
  C7. After registerSettings on a backend that holds no persisted value for the two
  collections, favorites reads its default, the empty string, as no member, and expanded
  folders reads its default "Favorites" as the one member "Favorites".
\<close>

theorem C7_registered_defaults:
  assumes "storage gs (PACKAGE_NAME, FAVORITE_EFFECT_NAMES) = None"
      and "storage gs (PACKAGE_NAME, EXPANDED_FOLDERS) = None"
  shows "settings_get PACKAGE_NAME FAVORITE_EFFECT_NAMES (registerSettings gs) = Inr (StrV '''')
       \<and> favoriteEffectNames (registerSettings gs) = Inr []
       \<and> settings_get PACKAGE_NAME EXPANDED_FOLDERS (registerSettings gs) =
           Inr (StrV ''Favorites'')
       \<and> expandedFolders (registerSettings gs) = Inr [''Favorites'']"
  using assms
  by (simp add: get_registered_favorites get_registered_folders favoriteEffectNames_raw
      expandedFolders_raw members_Favorites)

theorem C7_registered_defaults_witness:
  "storage fresh_backend (PACKAGE_NAME, FAVORITE_EFFECT_NAMES) = None
   \<and> storage fresh_backend (PACKAGE_NAME, EXPANDED_FOLDERS) = None
   \<and> favoriteEffectNames (registerSettings fresh_backend) = Inr []
   \<and> expandedFolders (registerSettings fresh_backend) = Inr [''Favorites'']"
proof -
  have a: "storage fresh_backend (PACKAGE_NAME, FAVORITE_EFFECT_NAMES) = None"
   and b: "storage fresh_backend (PACKAGE_NAME, EXPANDED_FOLDERS) = None"
    by simp_all
  from C7_registered_defaults [OF a b] a b show ?thesis by simp
qed

text \<open>
  C8. addFavoriteEffect validates nothing. As stated (after adding a name that holds the
  delimiter, the getter returns its parts as members) the claim fails for a part that is
  empty or blank: after adding "a;" to the empty collection the getter returns "a" only,
  and the empty part is no member.
\<close>

theorem C8_counterexample:
  "and_then (addFavoriteEffect ''a;'' (favorites_only '''')) favoriteEffectNames = Inr [''a'']
   \<and> js_split CHR 0x3B ''a;'' = [''a'', '''']
   \<and> and_then (addFavoriteEffect ''a;'' (favorites_only '''')) (isFavoritedEffect '''') =
       Inr False"
proof -
  have r: "add_raw ''a;'' '''' = ''a;''"
    by (simp add: add_raw_def new_Set_def set_add_def)
  have m: "members ''a;'' = [''a'']"
    by (simp add: members_def trim_def is_whitespace_def)
  show ?thesis
    by (simp add: addFavoriteEffect_raw favoriteEffectNames_raw isFavoritedEffect_raw r m)
qed

text \<open>
  C8, as amended. For every name, addFavoriteEffect returns and writes the join of the
  deduplicated members with the name appended, the name unchanged; after it, every part of
  the name that is neither empty nor blank is favorited, and a name that holds the
  delimiter is itself not favorited.
\<close>

theorem C8_add_unvalidated:
  assumes "settings_get PACKAGE_NAME FAVORITE_EFFECT_NAMES gs = Inr (StrV raw)"
  shows "(\<exists>gs' ms. favoriteEffectNames gs = Inr ms
            \<and> addFavoriteEffect n gs = Inr gs'
            \<and> settings_get PACKAGE_NAME FAVORITE_EFFECT_NAMES gs' =
                Inr (StrV (js_join [CHR 0x3B] (new_Set (ms @ [n])))))
       \<and> (CHR 0x3B \<in> set n \<longrightarrow>
            and_then (addFavoriteEffect n gs) (isFavoritedEffect n) = Inr False)
       \<and> (\<forall>p \<in> set (js_split CHR 0x3B n). trim p \<noteq> [] \<longrightarrow>
            and_then (addFavoriteEffect n gs) (isFavoritedEffect p) = Inr True)"
proof -
  have completes: "\<exists>gs' ms. favoriteEffectNames gs = Inr ms
            \<and> addFavoriteEffect n gs = Inr gs'
            \<and> settings_get PACKAGE_NAME FAVORITE_EFFECT_NAMES gs' =
                Inr (StrV (js_join [CHR 0x3B] (new_Set (ms @ [n]))))"
    using assms by (simp add: favoriteEffectNames_raw addFavoriteEffect_raw add_raw_def)
  have whole: "and_then (addFavoriteEffect n gs) (isFavoritedEffect n) = Inr False"
    if "CHR 0x3B \<in> set n"
    using assms that
    by (simp add: addFavoriteEffect_raw isFavoritedEffect_raw sep_name_not_member_after_add)
  have parts: "and_then (addFavoriteEffect n gs) (isFavoritedEffect p) = Inr True"
    if "p \<in> set (js_split CHR 0x3B n)" and "trim p \<noteq> []" for p
    using assms that
    by (simp add: addFavoriteEffect_raw isFavoritedEffect_raw part_member_after_add)
  from completes whole parts show ?thesis by blast
qed

theorem C8_add_unvalidated_witness:
  "settings_get PACKAGE_NAME FAVORITE_EFFECT_NAMES (favorites_only ''x'') = Inr (StrV ''x'')
   \<and> and_then (addFavoriteEffect ''a; ;b'' (favorites_only ''x''))
        (isFavoritedEffect ''a; ;b'') = Inr False
   \<and> and_then (addFavoriteEffect ''a; ;b'' (favorites_only ''x''))
        (isFavoritedEffect ''a'') = Inr True
   \<and> and_then (addFavoriteEffect ''a; ;b'' (favorites_only ''x''))
        (isFavoritedEffect ''b'') = Inr True"
proof -
  let ?gs = "favorites_only ''x''"
  have h: "settings_get PACKAGE_NAME FAVORITE_EFFECT_NAMES ?gs = Inr (StrV ''x'')"
    by simp
  have sp: "js_split CHR 0x3B ''a; ;b'' = [''a'', '' '', ''b'']"
    by simp
  have ta: "trim ''a'' \<noteq> []" and tb: "trim ''b'' \<noteq> []"
    by (simp_all add: trim_def is_whitespace_def)
  have sep: "CHR 0x3B \<in> set ''a; ;b''"
    by simp
  from C8_add_unvalidated [OF h, of "''a; ;b''"] sep ta tb h show ?thesis
    unfolding sp by simp
qed

text \<open>
  C9. The raw value is the join of the members that the getter returns, after every
  mutating operation. As stated the claim fails after an add of a blank name: adding " "
  to the empty collection writes " ", and the getter then returns no member, whose join is
  the empty string.
\<close>

theorem C9_counterexample:
  "and_then (addFavoriteEffect '' '' (favorites_only ''''))
       (settings_get PACKAGE_NAME FAVORITE_EFFECT_NAMES) = Inr (StrV '' '')
   \<and> and_then (addFavoriteEffect '' '' (favorites_only '''')) favoriteEffectNames = Inr []
   \<and> js_join [CHR 0x3B] [] = ''''"
proof -
  have r: "add_raw '' '' '''' = '' ''"
    by (simp add: add_raw_def new_Set_def set_add_def)
  have m: "members '' '' = []"
    by (simp add: members_def trim_def is_whitespace_def)
  show ?thesis
    by (simp add: addFavoriteEffect_raw favoriteEffectNames_raw r m)
qed

text \<open>
  C9, as amended. After a remove (either collection) and after clearExpandedFolders, for
  every name and every backend, the raw value is the join of the members that the getter
  returns; after an add (either collection) it is so whenever no part of the added name,
  split at the delimiter, is empty or blank.
\<close>

theorem C9_raw_is_join_of_members:
  assumes fav: "settings_get PACKAGE_NAME FAVORITE_EFFECT_NAMES gs = Inr (StrV raw)"
      and fol: "settings_get PACKAGE_NAME EXPANDED_FOLDERS gs = Inr (StrV raw')"
  shows "(\<exists>gs' ms. removeFavoriteEffect n gs = Inr gs' \<and> favoriteEffectNames gs' = Inr ms
            \<and> settings_get PACKAGE_NAME FAVORITE_EFFECT_NAMES gs' =
                Inr (StrV (js_join [CHR 0x3B] ms)))
       \<and> (\<exists>gs' ms. removeExpandedFolder n gs = Inr gs' \<and> expandedFolders gs' = Inr ms
            \<and> settings_get PACKAGE_NAME EXPANDED_FOLDERS gs' =
                Inr (StrV (js_join [CHR 0x3B] ms)))
       \<and> (\<exists>ms. expandedFolders (clearExpandedFolders gs) = Inr ms
            \<and> settings_get PACKAGE_NAME EXPANDED_FOLDERS (clearExpandedFolders gs) =
                Inr (StrV (js_join [CHR 0x3B] ms)))
       \<and> ((\<forall>p \<in> set (js_split CHR 0x3B n). trim p \<noteq> []) \<longrightarrow>
            (\<exists>gs' ms. addFavoriteEffect n gs = Inr gs' \<and> favoriteEffectNames gs' = Inr ms
               \<and> settings_get PACKAGE_NAME FAVORITE_EFFECT_NAMES gs' =
                   Inr (StrV (js_join [CHR 0x3B] ms)))
          \<and> (\<exists>gs' ms. addExpandedFolder n gs = Inr gs' \<and> expandedFolders gs' = Inr ms
               \<and> settings_get PACKAGE_NAME EXPANDED_FOLDERS gs' =
                   Inr (StrV (js_join [CHR 0x3B] ms))))"
proof -
  have rem: "js_join [CHR 0x3B] (members (remove_raw n r)) = remove_raw n r" for r
    by (simp add: members_remove_raw) (simp add: remove_raw_def)
  have a: "\<exists>gs' ms. removeFavoriteEffect n gs = Inr gs' \<and> favoriteEffectNames gs' = Inr ms
            \<and> settings_get PACKAGE_NAME FAVORITE_EFFECT_NAMES gs' =
                Inr (StrV (js_join [CHR 0x3B] ms))"
    using fav by (simp add: removeFavoriteEffect_raw favoriteEffectNames_raw rem)
  have b: "\<exists>gs' ms. removeExpandedFolder n gs = Inr gs' \<and> expandedFolders gs' = Inr ms
            \<and> settings_get PACKAGE_NAME EXPANDED_FOLDERS gs' =
                Inr (StrV (js_join [CHR 0x3B] ms))"
    using fol by (simp add: removeExpandedFolder_raw expandedFolders_raw rem)
  have c: "\<exists>ms. expandedFolders (clearExpandedFolders gs) = Inr ms
            \<and> settings_get PACKAGE_NAME EXPANDED_FOLDERS (clearExpandedFolders gs) =
                Inr (StrV (js_join [CHR 0x3B] ms))"
    by (simp add: clearExpandedFolders_def expandedFolders_raw)
  have d: "\<exists>gs' ms. addFavoriteEffect n gs = Inr gs' \<and> favoriteEffectNames gs' = Inr ms
               \<and> settings_get PACKAGE_NAME FAVORITE_EFFECT_NAMES gs' =
                   Inr (StrV (js_join [CHR 0x3B] ms))"
    if "\<forall>p \<in> set (js_split CHR 0x3B n). trim p \<noteq> []"
    using fav that by (simp add: addFavoriteEffect_raw favoriteEffectNames_raw join_members_add_raw)
  have e: "\<exists>gs' ms. addExpandedFolder n gs = Inr gs' \<and> expandedFolders gs' = Inr ms
               \<and> settings_get PACKAGE_NAME EXPANDED_FOLDERS gs' =
                   Inr (StrV (js_join [CHR 0x3B] ms))"
    if "\<forall>p \<in> set (js_split CHR 0x3B n). trim p \<noteq> []"
    using fol that by (simp add: addExpandedFolder_raw expandedFolders_raw join_members_add_raw)
  from a b c d e show ?thesis by blast
qed

theorem C9_raw_is_join_of_members_witness:
  "list_all (\<lambda>p. trim p \<noteq> []) (js_split CHR 0x3B ''Prone'')
   \<and> (\<exists>gs' ms. removeFavoriteEffect ''Prone'' (registerSettings fresh_backend) = Inr gs'
          \<and> favoriteEffectNames gs' = Inr ms
          \<and> settings_get PACKAGE_NAME FAVORITE_EFFECT_NAMES gs' =
              Inr (StrV (js_join [CHR 0x3B] ms)))
   \<and> (\<exists>ms. expandedFolders (clearExpandedFolders (registerSettings fresh_backend)) = Inr ms
          \<and> settings_get PACKAGE_NAME EXPANDED_FOLDERS
                (clearExpandedFolders (registerSettings fresh_backend)) =
              Inr (StrV (js_join [CHR 0x3B] ms)))
   \<and> (\<exists>gs' ms. addFavoriteEffect ''Prone'' (registerSettings fresh_backend) = Inr gs'
          \<and> favoriteEffectNames gs' = Inr ms
          \<and> settings_get PACKAGE_NAME FAVORITE_EFFECT_NAMES gs' =
              Inr (StrV (js_join [CHR 0x3B] ms)))
   \<and> (\<exists>gs' ms. addExpandedFolder ''Prone'' (registerSettings fresh_backend) = Inr gs'
          \<and> expandedFolders gs' = Inr ms
          \<and> settings_get PACKAGE_NAME EXPANDED_FOLDERS gs' =
              Inr (StrV (js_join [CHR 0x3B] ms)))"
proof -
  let ?gs = "registerSettings fresh_backend"
  have fav: "settings_get PACKAGE_NAME FAVORITE_EFFECT_NAMES ?gs = Inr (StrV [])"
    by (simp add: get_registered_favorites)
  have fol: "settings_get PACKAGE_NAME EXPANDED_FOLDERS ?gs = Inr (StrV ''Favorites'')"
    by (simp add: get_registered_folders)
  have pieces: "list_all (\<lambda>p. trim p \<noteq> []) (js_split CHR 0x3B ''Prone'')"
    by (simp add: trim_def is_whitespace_def)
  then have pieces': "\<forall>p \<in> set (js_split CHR 0x3B ''Prone''). trim p \<noteq> []"
    by (simp only: list_all_iff)
  from C9_raw_is_join_of_members [OF fav fol, of "''Prone''"] pieces pieces'
  show ?thesis by blast
qed

text \<open>
  C10. Adding a name made of white space only. As stated (the getter returns the same
  sequence as before the add, for every prior state) the claim fails where the prior
  sequence has a duplicate: on the raw value "a;a" the getter returns "a", "a" before
  adding " " and "a" after it.
\<close>

theorem C10_counterexample:
  "favoriteEffectNames (favorites_only ''a;a'') = Inr [''a'', ''a'']
   \<and> and_then (addFavoriteEffect '' '' (favorites_only ''a;a'')) favoriteEffectNames =
       Inr [''a'']"
proof -
  have m: "members ''a;a'' = [''a'', ''a'']"
    by (simp add: members_def trim_def is_whitespace_def)
  have r: "add_raw '' '' ''a;a'' = ''a; ''"
    by (simp add: add_raw_def m new_Set_def set_add_def)
  have m': "members ''a; '' = [''a'']"
    by (simp add: members_def trim_def is_whitespace_def)
  show ?thesis
    by (simp add: addFavoriteEffect_raw favoriteEffectNames_raw r m m')
qed

text \<open>
  C10, as amended. For every prior state and every name made of white space only (the
  empty name included), addFavoriteEffect returns, the name is not favorited afterwards,
  and the getter then returns the prior sequence with later duplicates dropped: the same
  set of members, and the same sequence when the prior one had no duplicate.
\<close>

theorem C10_blank_name_lost:
  assumes raw: "settings_get PACKAGE_NAME FAVORITE_EFFECT_NAMES gs = Inr (StrV raw)"
      and blank: "\<forall>c \<in> set n. is_whitespace c"
  shows "\<exists>gs' ms. favoriteEffectNames gs = Inr ms
           \<and> addFavoriteEffect n gs = Inr gs'
           \<and> isFavoritedEffect n gs' = Inr False
           \<and> favoriteEffectNames gs' = Inr (new_Set ms)
           \<and> set (new_Set ms) = set ms
           \<and> (distinct ms \<longrightarrow> favoriteEffectNames gs' = Inr ms)"
proof -
  from blank have t: "trim n = []"
    by (simp add: trim_eq_Nil_iff)
  have after: "members (add_raw n raw) = new_Set (members raw)"
    using t by (rule members_add_raw_blank)
  have out: "n \<notin> set (members raw)"
    using t by (rule blank_not_member)
  show ?thesis
    using raw out
    by (simp add: favoriteEffectNames_raw addFavoriteEffect_raw isFavoritedEffect_raw after
        new_Set_distinct)
qed

theorem C10_blank_name_lost_witness:
  "list_all is_whitespace '' ''
   \<and> favoriteEffectNames (favorites_only ''a;b'') = Inr [''a'', ''b'']
   \<and> (\<exists>gs'. addFavoriteEffect '' '' (favorites_only ''a;b'') = Inr gs'
          \<and> isFavoritedEffect '' '' gs' = Inr False
          \<and> favoriteEffectNames gs' = Inr [''a'', ''b''])"
proof -
  let ?gs = "favorites_only ''a;b''"
  have h: "settings_get PACKAGE_NAME FAVORITE_EFFECT_NAMES ?gs = Inr (StrV ''a;b'')"
    by simp
  have blank: "list_all is_whitespace '' ''"
    by (simp add: is_whitespace_def)
  then have blank': "\<forall>c \<in> set '' ''. is_whitespace c"
    by (simp only: list_all_iff)
  have ms: "favoriteEffectNames ?gs = Inr [''a'', ''b'']"
    by (simp add: favoriteEffectNames_raw members_def trim_def is_whitespace_def)
  from C10_blank_name_lost [OF h blank'] ms blank show ?thesis
    by auto
qed

end
